theory Spec2Isabelle
  imports Main "HOL-Library.Sublist" "HOL-Library.AList"
begin

section \<open>Python values, strings and exceptions\<close>

text \<open>
  The values that reach the two classifiers are attribute values of a feature: the
  result of \<^verbatim>\<open>feature.attributes.get(NOTES_FIELD)\<close>, which is \<^verbatim>\<open>None\<close>, a string, or
  any other attribute value (a number, a date object).

  Strings are lists of \<^typ>\<open>char\<close>, a character being a code point below 256. White
  space is exactly what \<^verbatim>\<open>str.isspace\<close> accepts on that range. Case mapping is the one
  of the ASCII letters; the letters above 127 are left as they are, which changes no
  result of the two classifiers, the vocabulary and the marker being ASCII (code
  points from 256 on are outside this development).
\<close>

datatype pyval = PyNone | PyBool bool | PyInt int | PyStr string | PyObj nat

datatype exn = AttributeError string | IndexError string | ServiceError string

text \<open>
  An exception carries its message. \<open>ServiceError\<close> stands for whatever a client library
  raises (connection, authentication, a refused request).
\<close>

fun isinstance_str :: "pyval \<Rightarrow> bool" where
  "isinstance_str (PyStr s) = True"
| "isinstance_str v = False"

definition upper_letters :: string where
  "upper_letters = ''ABCDEFGHIJKLMNOPQRSTUVWXYZ''"

definition lower_letters :: string where
  "lower_letters = ''abcdefghijklmnopqrstuvwxyz''"

definition lower_char :: "char \<Rightarrow> char" where
  "lower_char c = (case map_of (zip upper_letters lower_letters) c of Some d \<Rightarrow> d | None \<Rightarrow> c)"

definition upper_char :: "char \<Rightarrow> char" where
  "upper_char c = (case map_of (zip lower_letters upper_letters) c of Some d \<Rightarrow> d | None \<Rightarrow> c)"

text \<open>
  \<^verbatim>\<open>str.isspace\<close> on the code points below 256: tab to carriage return, the four
  separators 28 to 31, space, next line (U+0085) and no-break space (U+00A0). These are
  the characters \<^verbatim>\<open>str.strip()\<close> removes.
\<close>

definition whitespace :: string where
  "whitespace = [CHR 0x09, CHR 0x0A, CHR 0x0B, CHR 0x0C, CHR 0x0D,
                 CHR 0x1C, CHR 0x1D, CHR 0x1E, CHR 0x1F, CHR 0x20, CHR 0x85, CHR 0xA0]"

definition is_space :: "char \<Rightarrow> bool" where
  "is_space c = List.member whitespace c"

definition str_lower :: "string \<Rightarrow> string" where
  "str_lower s = map lower_char s"

definition str_upper :: "string \<Rightarrow> string" where
  "str_upper s = map upper_char s"

definition str_strip :: "string \<Rightarrow> string" where
  "str_strip s = rev (dropWhile is_space (rev (dropWhile is_space s)))"

text \<open>
  Method calls on a value: \<^verbatim>\<open>text.lower()\<close> and \<^verbatim>\<open>text.strip()\<close> raise AttributeError on
  anything that is not a string.
\<close>

fun py_lower :: "pyval \<Rightarrow> exn + string" where
  "py_lower (PyStr s) = Inr (str_lower s)"
| "py_lower v = Inl (AttributeError ''str method lower on a non-string'')"

fun py_strip :: "pyval \<Rightarrow> exn + string" where
  "py_strip (PyStr s) = Inr (str_strip s)"
| "py_strip v = Inl (AttributeError ''str method strip on a non-string'')"

section \<open>The keyword stage\<close>

definition emergency_words :: "string list" where
  "emergency_words =
     [''trapped'', ''unconscious'', ''fire'', ''injured'', ''can't breathe'',
      ''emergency'', ''urgent'', ''help'', ''attack'', ''bleeding'']"

text \<open>
  \<^verbatim>\<open>word in text_lower\<close> on two strings is the contiguous-substring test \<^const>\<open>sublist\<close>;
  \<^verbatim>\<open>any(... for word in emergency_words)\<close> is \<^const>\<open>list_ex\<close>.
\<close>

definition is_emergency_keyword :: "pyval \<Rightarrow> exn + bool" where
  "is_emergency_keyword v =
     (if \<not> isinstance_str v then Inr False
      else case py_lower v of
             Inl ex \<Rightarrow> Inl ex
           | Inr text_lower \<Rightarrow> Inr (list_ex (\<lambda>word. sublist word text_lower) emergency_words))"

text \<open>
  The reading of "contains a term in any letter case": some contiguous piece of the
  text equals the term up to the case of its letters.
\<close>

definition caseless_eq :: "string \<Rightarrow> string \<Rightarrow> bool" where
  "caseless_eq a b = (str_lower a = str_lower b)"

definition contains_caseless :: "string \<Rightarrow> string \<Rightarrow> bool" where
  "contains_caseless s w = (\<exists>t. sublist t s \<and> caseless_eq t w)"

section \<open>The world outside the script\<close>

text \<open>
  A feature is its attribute dictionary: an association list, read with
  \<^verbatim>\<open>.get\<close> and written with \<^verbatim>\<open>attributes[k] = v\<close> (\<^const>\<open>AList.update\<close>: in place
  when the key is there, appended otherwise).
\<close>

type_synonym attributes = "(string \<times> pyval) list"

definition dict_get :: "attributes \<Rightarrow> string \<Rightarrow> pyval" where
  "dict_get d k = (case map_of d k of None \<Rightarrow> PyNone | Some v \<Rightarrow> v)"

text \<open>
  One entry of the store's answer to a batch write: the keys \<^verbatim>\<open>objectId\<close>,
  \<^verbatim>\<open>success\<close> and \<^verbatim>\<open>error\<close> (a code and a description), the last two possibly absent.
\<close>

type_synonym store_error = "int \<times> string"

record update_result =
  ur_objectId :: int
  ur_success :: "bool option"
  ur_error :: "store_error option"

text \<open>The answer itself: the value under \<^verbatim>\<open>updateResults\<close>, when the key is there.\<close>

type_synonym edit_response = "update_result list option"

text \<open>The content of the message of each choice of a chat completion.\<close>

type_synonym chat_response = "string option list"

text \<open>A printed line, kept as the pieces of its f-string.\<close>

datatype piece =
    Txt string | NL | Apos | Val pyval | Err exn | Num nat
  | Names "string list" | Resp edit_response | Errs "store_error option list"

type_synonym line = "piece list"

record layer_state =
  layer_name :: pyval
  field_names :: "string list"
  rows :: "attributes list"

text \<open>
  The state a run acts on: what it printed, the requests it sent to the inference
  backend, the feature layer in the remote store, and the batches it submitted with
  \<^verbatim>\<open>edit_features\<close>. \<open>keyword_calls\<close> and \<open>semantic_calls\<close> are ghost counters of
  the calls of \<^verbatim>\<open>is_emergency_keyword\<close> and of \<^verbatim>\<open>is_emergency_openai\<close>.
\<close>

record world =
  stdout :: "line list"
  keyword_calls :: nat
  semantic_calls :: nat
  openai_requests :: "pyval list"
  layer :: layer_state
  edit_requests :: "attributes list list"

record gis_info =
  portalName :: string
  me_username :: "string option"

datatype auth = ClientAuth string string | UserAuth string string | HomeProfile

text \<open>
  What a run cannot control: the environment variables, whether the \<^verbatim>\<open>openai\<close> library
  can be imported, what building the client and sending the request does for a given
  message, and how the portal and the store answer.
\<close>

record env =
  environ :: "string \<Rightarrow> string option"
  openai_installed :: bool
  openai_create :: "pyval \<Rightarrow> exn + chat_response"
  gis_connect :: "string \<Rightarrow> auth \<Rightarrow> exn + gis_info"
  open_layer :: "exn option"
  add_to_definition :: "exn option"
  query_error :: "exn option"
  edit_features :: "layer_state \<Rightarrow> attributes list \<Rightarrow> (exn + edit_response) \<times> layer_state"

definition NOTES_FIELD :: string where
  "NOTES_FIELD = ''other_info_provided''"

definition OBJECTID_FIELD :: string where
  "OBJECTID_FIELD = ''objectid''"

definition FLAG_FIELD :: string where
  "FLAG_FIELD = ''ai_flag''"

definition FEATURE_LAYER_URL :: string where
  "FEATURE_LAYER_URL = ''https://services.arcgis.com/pGfbNJoYypmNq86F/arcgis/rest/services/survey123_e94edce759494dbc89d3cc0d4368b68a_results/FeatureServer/0''"

definition ARCGIS_PORTAL_URL :: "env \<Rightarrow> string" where
  "ARCGIS_PORTAL_URL e =
     (case environ e ''ARCGIS_PORTAL_URL'' of None \<Rightarrow> ''https://www.arcgis.com'' | Some u \<Rightarrow> u)"

text \<open>Truth value of what \<^verbatim>\<open>os.getenv\<close> returns: \<^verbatim>\<open>None\<close> and the empty string are false.\<close>

fun truthy :: "string option \<Rightarrow> bool" where
  "truthy None = False"
| "truthy (Some s) = (s \<noteq> [])"

fun opt_val :: "string option \<Rightarrow> pyval" where
  "opt_val None = PyNone"
| "opt_val (Some s) = PyStr s"

definition py_print :: "line \<Rightarrow> world \<Rightarrow> world" where
  "py_print l w = w\<lparr>stdout := stdout w @ [l]\<rparr>"

section \<open>The semantic stage\<close>

text \<open>
  \<^verbatim>\<open>response.choices[0].message.content.strip().upper()\<close>, then the test for the marker:
  an empty list of choices raises IndexError, a null content AttributeError.
\<close>

definition openai_label :: "chat_response \<Rightarrow> exn + bool" where
  "openai_label response =
     (case response of
        [] \<Rightarrow> Inl (IndexError ''list index out of range'')
      | choice # _ \<Rightarrow>
          (case choice of
             None \<Rightarrow> Inl (AttributeError ''NoneType object has no attribute strip'')
           | Some content \<Rightarrow> Inr (sublist ''EMERGENCY'' (str_upper (str_strip content)))))"

text \<open>
  The body of the \<^verbatim>\<open>try\<close>: the client is built and the request sent (logged in
  \<open>openai_requests\<close> when the block is entered), and the answer is read.
\<close>

definition openai_try :: "env \<Rightarrow> pyval \<Rightarrow> world \<Rightarrow> (exn + bool) \<times> world" where
  "openai_try e v w =
     (let w1 = w\<lparr>openai_requests := openai_requests w @ [v]\<rparr>
      in case openai_create e v of
           Inl ex \<Rightarrow> (Inl ex, w1)
         | Inr response \<Rightarrow> (openai_label response, w1))"

definition is_emergency_openai :: "env \<Rightarrow> pyval \<Rightarrow> world \<Rightarrow> (exn + bool) \<times> world" where
  "is_emergency_openai e v w0 =
     (let w = w0\<lparr>semantic_calls := semantic_calls w0 + 1\<rparr>
      in if \<not> isinstance_str v then (Inr False, w)
         else case py_strip v of
           Inl ex \<Rightarrow> (Inl ex, w)
         | Inr stripped \<Rightarrow>
             if stripped = [] then (Inr False, w)
             else if \<not> openai_installed e then
               (Inr False,
                py_print [Txt ''Please run 'pip install openai' to install it.'']
                  (py_print [Txt ''Error: The 'openai' library is required for this function.''] w))
             else if \<not> truthy (environ e ''OPENAI_API_KEY'') then
               (Inr False,
                py_print [Txt ''Error: OPENAI_API_KEY environment variable not set. Please add it to your .env file.''] w)
             else
               (case openai_try e v w of
                  (Inl ex, w1) \<Rightarrow>
                    (Inr False,
                     py_print [Txt ''An error occurred while calling the OpenAI API: '', Err ex] w1)
                | (Inr b, w1) \<Rightarrow> (Inr b, w1)))"

section \<open>The pipeline: one feature\<close>

text \<open>The body of the loop of \<^verbatim>\<open>main\<close> (step 5), for one feature of the query's answer.\<close>

definition flag_of :: "bool \<Rightarrow> string" where
  "flag_of is_emergency = (if is_emergency then ''911_REVIEW'' else ''OK'')"

definition stage2 :: "env \<Rightarrow> pyval \<Rightarrow> bool \<Rightarrow> world \<Rightarrow> (exn + bool) \<times> world" where
  "stage2 e text_to_analyze is_emergency w =
     (if \<not> is_emergency then
        is_emergency_openai e text_to_analyze
          (py_print [Txt ''  - No keywords found. Sending to AI for deeper analysis...''] w)
      else
        (Inr is_emergency, py_print [Txt ''  - Emergency keyword found. Flagging immediately.''] w))"

text \<open>Stage 1, then stage 2 when stage 1 found nothing (lines 213 to 220).\<close>

definition decide :: "env \<Rightarrow> pyval \<Rightarrow> world \<Rightarrow> (exn + bool) \<times> world" where
  "decide e text_to_analyze w0 =
     (let w = w0\<lparr>keyword_calls := keyword_calls w0 + 1\<rparr>
      in case is_emergency_keyword text_to_analyze of
           Inl ex \<Rightarrow> (Inl ex, w)
         | Inr is_emergency \<Rightarrow> stage2 e text_to_analyze is_emergency w)"

definition announce :: "attributes \<Rightarrow> world \<Rightarrow> world" where
  "announce feature w =
     py_print [Txt ''  - Text: '', Apos, Val (dict_get feature NOTES_FIELD), Apos]
       (py_print [NL, Txt ''Processing Feature ID: '', Val (dict_get feature OBJECTID_FIELD)] w)"

definition triage :: "env \<Rightarrow> attributes \<Rightarrow> world \<Rightarrow> (exn + attributes) \<times> world" where
  "triage e feature w =
     (case decide e (dict_get feature NOTES_FIELD) (announce feature w) of
        (Inl ex, w1) \<Rightarrow> (Inl ex, w1)
      | (Inr is_emergency, w1) \<Rightarrow>
          (Inr (AList.update FLAG_FIELD (PyStr (flag_of is_emergency)) feature),
           py_print [Txt ''  - Analysis Result: '', Txt (flag_of is_emergency)] w1))"

fun analyze :: "env \<Rightarrow> attributes list \<Rightarrow> attributes list \<Rightarrow> world
    \<Rightarrow> (exn + attributes list) \<times> world" where
  "analyze e [] updates w = (Inr updates, w)"
| "analyze e (feature # rest) updates w =
     (case triage e feature w of
        (Inl ex, w1) \<Rightarrow> (Inl ex, w1)
      | (Inr flagged, w1) \<Rightarrow> analyze e rest (updates @ [flagged]) w1)"

section \<open>The orchestrator\<close>

text \<open>Step 1 of \<^verbatim>\<open>main\<close>: connect to the portal; \<open>None\<close> when \<^verbatim>\<open>main\<close> returns here.\<close>

definition connect :: "env \<Rightarrow> world \<Rightarrow> gis_info option \<times> world" where
  "connect e w0 =
     (let w = py_print [Txt ''Connecting to ArcGIS...''] w0;
          arcgis_client_id = environ e ''ARCGIS_CLIENT_ID'';
          arcgis_client_secret = environ e ''ARCGIS_CLIENT_SECRET'';
          arcgis_username = environ e ''ARCGIS_USERNAME'';
          arcgis_password = environ e ''ARCGIS_PASSWORD'';
          (attempt, w1) =
            (if truthy arcgis_client_id \<and> truthy arcgis_client_secret then
               (gis_connect e (ARCGIS_PORTAL_URL e)
                  (ClientAuth (the arcgis_client_id) (the arcgis_client_secret)),
                py_print [Txt ''Connecting to '', Txt (ARCGIS_PORTAL_URL e),
                          Txt '' using Client ID...''] w)
             else if truthy arcgis_username \<and> truthy arcgis_password then
               (gis_connect e (ARCGIS_PORTAL_URL e)
                  (UserAuth (the arcgis_username) (the arcgis_password)),
                py_print [Txt ''Connecting to '', Txt (ARCGIS_PORTAL_URL e), Txt '' as user '',
                          Apos, Val (opt_val arcgis_username), Apos, Txt ''...''] w)
             else
               (gis_connect e ''home'' HomeProfile,
                py_print [Txt ''Connecting using default profile (GIS('home'))...''] w))
      in case attempt of
           Inl ex \<Rightarrow>
             (None,
              py_print [Txt ''Please check your credentials in the .env file or your saved profile.'']
                (py_print [Txt ''Failed to connect to ArcGIS. Error: '', Err ex] w1))
         | Inr gis \<Rightarrow>
             (let username =
                    (case me_username gis of Some u \<Rightarrow> Some u | None \<Rightarrow> arcgis_client_id)
              in (Some gis,
                  py_print [Txt ''Successfully connected to '', Apos, Txt (portalName gis), Apos,
                            Txt '' as '', Apos, Val (opt_val username), Apos, Txt ''.''] w1)))"

text \<open>Step 2: open the feature layer; \<open>False\<close> when \<^verbatim>\<open>main\<close> returns here.\<close>

definition access_layer :: "env \<Rightarrow> world \<Rightarrow> bool \<times> world" where
  "access_layer e w =
     (if sublist ''PASTE_YOUR_FEATURE_LAYER_URL_HERE'' FEATURE_LAYER_URL then
        (False,
         py_print [NL, Txt ''ERROR: Please update the FEATURE_LAYER_URL in the script configuration.''] w)
      else
        (let w1 = py_print [NL, Txt ''Accessing feature layer: '', Txt FEATURE_LAYER_URL] w
         in case open_layer e of
              Some ex \<Rightarrow>
                (False,
                 py_print [Txt ''Failed to access the feature layer. Please check the URL and permissions. Error: '',
                           Err ex] w1)
            | None \<Rightarrow>
                (True,
                 py_print [Txt ''Successfully accessed layer: '', Apos, Val (layer_name (layer w1)), Apos]
                   w1)))"

text \<open>
  Step 3: make sure the flag field exists. Adding it changes the layer's definition,
  never a feature.
\<close>

definition ensure_flag_field :: "env \<Rightarrow> world \<Rightarrow> bool \<times> world" where
  "ensure_flag_field e w =
     (let w1 = py_print [NL, Txt ''Checking for '', Apos, Txt FLAG_FIELD, Apos, Txt '' field...''] w;
          names = field_names (layer w1);
          w2 = py_print [Txt ''Detected fields: '', Names names] w1
      in if \<not> List.member names FLAG_FIELD then
           (let w3 = py_print [Txt ''Field '', Apos, Txt FLAG_FIELD, Apos,
                               Txt '' not found. Adding it to the layer...''] w2
            in case add_to_definition e of
                 Some ex \<Rightarrow>
                   (False,
                    py_print [Txt ''Failed to add field. Please check layer permissions. Error: '',
                              Err ex] w3)
               | None \<Rightarrow>
                   (True,
                    py_print [Txt ''Successfully added '', Apos, Txt FLAG_FIELD, Apos, Txt '' field.'']
                      (w3\<lparr>layer := (layer w3)\<lparr>field_names := names @ [FLAG_FIELD]\<rparr>\<rparr>)))
         else
           (True, py_print [Txt ''Field '', Apos, Txt FLAG_FIELD, Apos, Txt '' already exists.''] w2))"

text \<open>
  Step 4: the query. Its \<^verbatim>\<open>where\<close> clause, \<^verbatim>\<open>ai_flag IS NULL OR ai_flag = ''\<close>, selects the
  features whose flag is absent, null or the empty string; \<^verbatim>\<open>out_fields\<close> keeps the
  identifier and the notes. The answer is a list of copies of the store's features.
\<close>

definition unprocessed :: "attributes \<Rightarrow> bool" where
  "unprocessed a =
     (case map_of a FLAG_FIELD of
        None \<Rightarrow> True
      | Some PyNone \<Rightarrow> True
      | Some (PyStr s) \<Rightarrow> s = []
      | Some _ \<Rightarrow> False)"

definition layer_query :: "layer_state \<Rightarrow> attributes list" where
  "layer_query l =
     map (AList.restrict {OBJECTID_FIELD, NOTES_FIELD}) (filter unprocessed (rows l))"

definition query_features :: "env \<Rightarrow> world \<Rightarrow> attributes list option \<times> world" where
  "query_features e w =
     (let w1 = py_print [NL, Txt ''Querying for new submissions with: '', Txt FLAG_FIELD,
                         Txt '' IS NULL OR '', Txt FLAG_FIELD, Txt '' = '', Apos, Apos] w
      in case query_error e of
           Some ex \<Rightarrow>
             (None,
              py_print [Txt ''Failed to query features. Please check your field names. Error: '',
                        Err ex] w1)
         | None \<Rightarrow>
             (let features_to_process = layer_query (layer w1)
              in (Some features_to_process,
                  py_print [Txt ''Found '', Num (length features_to_process),
                            Txt '' new feature(s) to analyze.''] w1)))"

text \<open>
  Step 6: the batch write and its report. \<^verbatim>\<open>update_errors\<close> collects \<^verbatim>\<open>r.get('error')\<close> of
  every result whose \<^verbatim>\<open>success\<close> is false or absent.
\<close>

definition failed :: "update_result \<Rightarrow> bool" where
  "failed r = (case ur_success r of Some True \<Rightarrow> False | _ \<Rightarrow> True)"

definition update_errors :: "edit_response \<Rightarrow> store_error option list" where
  "update_errors result =
     map ur_error (filter failed (case result of None \<Rightarrow> [] | Some rs \<Rightarrow> rs))"

definition summary :: "edit_response \<Rightarrow> line" where
  "summary result =
     (if update_errors result \<noteq> [] then
        [NL, Txt ''Errors occurred during update: '', Errs (update_errors result)]
      else [Txt ''All features updated successfully in the layer.''])"

definition report :: "edit_response \<Rightarrow> world \<Rightarrow> world" where
  "report result w = py_print (summary result) (py_print [Txt ''Update results:'', Resp result] w)"

definition apply_updates :: "env \<Rightarrow> attributes list \<Rightarrow> world \<Rightarrow> world" where
  "apply_updates e updates w =
     (if updates \<noteq> [] then
        (let w1 = py_print [NL, Txt ''Applying updates for '', Num (length updates),
                            Txt '' feature(s)...''] w;
             (answer, l) = edit_features e (layer w1) updates;
             w2 = w1\<lparr>layer := l, edit_requests := edit_requests w1 @ [updates]\<rparr>
         in case answer of
              Inl ex \<Rightarrow> py_print [Txt ''Failed to apply updates to the layer. Error: '', Err ex] w2
            | Inr result \<Rightarrow> report result w2)
      else py_print [Txt ''No features were flagged for update.''] w)"

text \<open>
  \<^verbatim>\<open>main\<close>: \<open>Inr ()\<close> when it returns, \<open>Inl ex\<close> when an exception leaves it; the world
  it leaves behind in both cases.
\<close>

definition main :: "env \<Rightarrow> world \<Rightarrow> (exn + unit) \<times> world" where
  "main e w0 =
     (let w = py_print [Txt ''--- Starting Emergency Analysis Script ---''] w0
      in case connect e w of
           (None, w1) \<Rightarrow> (Inr (), w1)
         | (Some gis, w1) \<Rightarrow>
        (case access_layer e w1 of
           (False, w2) \<Rightarrow> (Inr (), w2)
         | (True, w2) \<Rightarrow>
        (case ensure_flag_field e w2 of
           (False, w3) \<Rightarrow> (Inr (), w3)
         | (True, w3) \<Rightarrow>
        (case query_features e w3 of
           (None, w4) \<Rightarrow> (Inr (), w4)
         | (Some features_to_process, w4) \<Rightarrow>
             if features_to_process = [] then
               (Inr (), py_print [Txt ''No new submissions to process. Exiting.''] w4)
             else
               (case analyze e features_to_process [] w4 of
                  (Inl ex, w5) \<Rightarrow> (Inl ex, w5)
                | (Inr updates, w5) \<Rightarrow>
                    (Inr (), py_print [NL, Txt ''--- Script finished ---'']
                               (apply_updates e updates w5)))))))"

section \<open>Notions of the specification\<close>

text \<open>
  The semantic stage's external call fails: the library is missing, the credential is
  missing, building the client or sending the request raises, or the answer is
  malformed (no choice, or a choice without content).
\<close>

definition semantic_call_fails :: "env \<Rightarrow> pyval \<Rightarrow> bool" where
  "semantic_call_fails e v =
     (\<not> openai_installed e \<or> \<not> truthy (environ e ''OPENAI_API_KEY'')
      \<or> (case openai_create e v of
            Inl ex \<Rightarrow> True
          | Inr response \<Rightarrow> (case openai_label response of Inl ex \<Rightarrow> True | Inr b \<Rightarrow> False)))"

text \<open>
  A blank note: not a string (\<^verbatim>\<open>None\<close> included), or a string of white space only, the
  empty string included.
\<close>

definition blank :: "pyval \<Rightarrow> bool" where
  "blank v = (case v of PyStr s \<Rightarrow> list_all is_space s | _ \<Rightarrow> True)"

text \<open>The batch report of the specification: the two counts and the failed records.\<close>

definition results_of :: "edit_response \<Rightarrow> update_result list" where
  "results_of result = (case result of None \<Rightarrow> [] | Some rs \<Rightarrow> rs)"

definition success_count :: "edit_response \<Rightarrow> nat" where
  "success_count result = length (filter (\<lambda>r. \<not> failed r) (results_of result))"

definition failure_count :: "edit_response \<Rightarrow> nat" where
  "failure_count result = length (filter failed (results_of result))"

definition failed_records :: "edit_response \<Rightarrow> (int \<times> store_error option) list" where
  "failed_records result = map (\<lambda>r. (ur_objectId r, ur_error r)) (filter failed (results_of result))"

text \<open>
  A step is quiet when it classifies nothing, sends nothing to the inference backend,
  submits no batch and leaves every record of the store as it was.
\<close>

definition quiet :: "world \<Rightarrow> world \<Rightarrow> bool" where
  "quiet w w' =
     (keyword_calls w' = keyword_calls w \<and> semantic_calls w' = semantic_calls w
      \<and> openai_requests w' = openai_requests w \<and> edit_requests w' = edit_requests w
      \<and> rows (layer w') = rows (layer w))"

text \<open>
  The portal and the store answer every request of steps 1 to 4: the connection is
  made, the layer opens, the flag field is there or can be added, the query succeeds.
\<close>

definition store_answers :: "env \<Rightarrow> world \<Rightarrow> bool" where
  "store_answers e w =
     (fst (connect e w) \<noteq> None \<and> open_layer e = None
      \<and> (List.member (field_names (layer w)) FLAG_FIELD \<or> add_to_definition e = None)
      \<and> query_error e = None)"

text \<open>Two lines of \<^verbatim>\<open>main\<close>: the one of the empty query and the last one of a full run.\<close>

definition nothing_to_do :: line where
  "nothing_to_do = [Txt ''No new submissions to process. Exiting.'']"

definition finished :: line where
  "finished = [NL, Txt ''--- Script finished ---'']"

section \<open>Example inputs\<close>

definition example_environ :: "string \<Rightarrow> string option" where
  "example_environ k = (if k = ''OPENAI_API_KEY'' then Some ''sk-example'' else None)"

text \<open>A store that accepts every update of a batch and writes the flag of each.\<close>

definition accepting_store ::
    "layer_state \<Rightarrow> attributes list \<Rightarrow> (exn + edit_response) \<times> layer_state" where
  "accepting_store l updates =
     (Inr (Some (map (\<lambda>u. \<lparr>ur_objectId = (case dict_get u OBJECTID_FIELD of PyInt i \<Rightarrow> i | _ \<Rightarrow> 0),
                           ur_success = Some True, ur_error = None\<rparr>) updates)),
      l\<lparr>rows := map (\<lambda>row.
             case find (\<lambda>u. dict_get u OBJECTID_FIELD = dict_get row OBJECTID_FIELD) updates of
               None \<Rightarrow> row
             | Some u \<Rightarrow> AList.update FLAG_FIELD (dict_get u FLAG_FIELD) row) (rows l)\<rparr>)"

definition example_env :: env where
  "example_env =
     \<lparr>environ = example_environ, openai_installed = True,
      openai_create = (\<lambda>v. Inr [Some ''OK'']),
      gis_connect = (\<lambda>url a. Inr \<lparr>portalName = ''ArcGIS Online'', me_username = Some ''relief''\<rparr>),
      open_layer = None, add_to_definition = None, query_error = None,
      edit_features = accepting_store\<rparr>"

definition backend_down :: env where
  "backend_down = example_env\<lparr>openai_create := (\<lambda>v. Inl (ServiceError ''Connection error.''))\<rparr>"

definition backend_alarm :: env where
  "backend_alarm = example_env\<lparr>openai_create := (\<lambda>v. Inr [Some '' emergency'', None])\<rparr>"

definition no_credential :: env where
  "no_credential = example_env\<lparr>environ := (\<lambda>k. None)\<rparr>"

definition no_library :: env where
  "no_library = example_env\<lparr>openai_installed := False\<rparr>"

definition backend_garbled :: env where
  "backend_garbled = example_env\<lparr>openai_create := (\<lambda>v. Inr [])\<rparr>"

definition backend_silent :: env where
  "backend_silent = example_env\<lparr>openai_create := (\<lambda>v. Inr [Some []])\<rparr>"

definition nbsp_note :: attributes where
  "nbsp_note = [(''objectid'', PyInt 3), (''other_info_provided'', PyStr [CHR 0xA0, CHR '' ''])]"

definition fire_note :: attributes where
  "fire_note = [(''objectid'', PyInt 1), (''other_info_provided'', PyStr ''My house is on fire! Help!'')]"

definition power_note :: attributes where
  "power_note = [(''objectid'', PyInt 2), (''other_info_provided'', PyStr ''When will the power be back on?'')]"

definition example_layer :: layer_state where
  "example_layer =
     \<lparr>layer_name = PyStr ''survey'',
      field_names = [''objectid'', ''other_info_provided'', ''ai_flag''],
      rows = [fire_note @ [(''ai_flag'', PyNone)], power_note @ [(''ai_flag'', PyStr [])]]\<rparr>"

definition done_layer :: layer_state where
  "done_layer =
     \<lparr>layer_name = PyStr ''survey'',
      field_names = [''objectid'', ''other_info_provided'', ''ai_flag''],
      rows = [fire_note @ [(''ai_flag'', PyStr ''911_REVIEW'')],
              power_note @ [(''ai_flag'', PyStr ''OK'')]]\<rparr>"

definition example_world :: world where
  "example_world =
     \<lparr>stdout = [], keyword_calls = 0, semantic_calls = 0, openai_requests = [],
      layer = example_layer, edit_requests = []\<rparr>"

definition done_world :: world where
  "done_world = example_world\<lparr>layer := done_layer\<rparr>"

text \<open>Two answers of the store to a batch write, and a store that gives the first.\<close>

definition answer_a :: edit_response where
  "answer_a =
     Some [\<lparr>ur_objectId = 1, ur_success = Some True, ur_error = None\<rparr>,
           \<lparr>ur_objectId = 2, ur_success = Some False, ur_error = Some (1000, ''Row is locked'')\<rparr>]"

definition answer_b :: edit_response where
  "answer_b =
     Some [\<lparr>ur_objectId = 1, ur_success = Some False, ur_error = Some (1000, ''Row is locked'')\<rparr>,
           \<lparr>ur_objectId = 2, ur_success = Some True, ur_error = None\<rparr>,
           \<lparr>ur_objectId = 3, ur_success = Some True, ur_error = None\<rparr>]"

definition refusing_env :: env where
  "refusing_env = example_env\<lparr>edit_features := (\<lambda>l updates. (Inr answer_a, l))\<rparr>"

section \<open>Facts about strings\<close>

lemma sublist_map_iff:
  "sublist w (map f s) \<longleftrightarrow> (\<exists>t. sublist t s \<and> map f t = w)"
proof
  assume "sublist w (map f s)"
  then obtain ps ss where "map f s = ps @ w @ ss"
    by (auto simp: sublist_def)
  then obtain ps' r where s: "s = ps' @ r" and r: "map f r = w @ ss"
    by (metis map_eq_append_conv)
  from r obtain t ss' where "r = t @ ss'" and "map f t = w"
    by (metis map_eq_append_conv)
  with s have "sublist t s \<and> map f t = w"
    by (auto simp: sublist_def)
  then show "\<exists>t. sublist t s \<and> map f t = w" ..
next
  assume "\<exists>t. sublist t s \<and> map f t = w"
  then show "sublist w (map f s)"
    by (auto intro: map_mono_sublist)
qed

lemmas char_eval = lower_char_def upper_char_def upper_letters_def lower_letters_def
  str_lower_def str_upper_def is_space_def whitespace_def

lemma emergency_words_lower: "w \<in> set emergency_words \<Longrightarrow> str_lower w = w"
  by (auto simp: emergency_words_def char_eval)

lemma dropWhile_all_iff: "(\<forall>c\<in>set (dropWhile P s). P c) \<longleftrightarrow> dropWhile P s = []"
proof
  assume all: "\<forall>c\<in>set (dropWhile P s). P c"
  show "dropWhile P s = []"
  proof (rule ccontr)
    assume ne: "dropWhile P s \<noteq> []"
    then have "\<not> P (hd (dropWhile P s))"
      by (rule hd_dropWhile)
    moreover from ne have "hd (dropWhile P s) \<in> set (dropWhile P s)"
      by simp
    ultimately show False
      using all by blast
  qed
qed (auto dest: set_dropWhileD)

lemma str_strip_empty_iff: "str_strip s = [] \<longleftrightarrow> (\<forall>c\<in>set s. is_space c)"
proof -
  have "str_strip s = [] \<longleftrightarrow> (\<forall>c\<in>set (dropWhile is_space s). is_space c)"
    by (simp add: str_strip_def)
  also have "\<dots> \<longleftrightarrow> dropWhile is_space s = []"
    by (rule dropWhile_all_iff)
  also have "\<dots> \<longleftrightarrow> (\<forall>c\<in>set s. is_space c)"
    by simp
  finally show ?thesis .
qed

lemma sublist_dropWhile_keep:
  assumes "sublist t s" and "t \<noteq> []" and "\<not> P (hd t)"
  shows "sublist t (dropWhile P s)"
proof -
  from assms obtain ps ss where s: "s = ps @ t @ ss"
    by (auto simp: sublist_def)
  from assms obtain c t' where t: "t = c # t'" and c: "\<not> P c"
    by (cases t) auto
  have "\<exists>ps'. dropWhile P s = ps' @ t @ ss"
  proof (cases "\<forall>x\<in>set ps. P x")
    case True
    then have "dropWhile P s = t @ ss"
      using c by (simp add: s t)
    then show ?thesis by (intro exI [of _ "[]"]) simp
  next
    case False
    then have "dropWhile P s = dropWhile P ps @ t @ ss"
      by (auto simp: s dropWhile_append)
    then show ?thesis by blast
  qed
  then show ?thesis
    by (auto simp: sublist_def)
qed

lemma sublist_str_strip:
  assumes "sublist t s" and "t \<noteq> []" and "\<not> is_space (hd t)" and "\<not> is_space (last t)"
  shows "sublist t (str_strip s)"
proof -
  have "sublist t (dropWhile is_space s)"
    using assms by (intro sublist_dropWhile_keep)
  then have "sublist (rev t) (rev (dropWhile is_space s))"
    by simp
  moreover have "rev t \<noteq> []" and "\<not> is_space (hd (rev t))"
    using assms by (simp_all add: hd_rev)
  ultimately have "sublist (rev t) (dropWhile is_space (rev (dropWhile is_space s)))"
    by (intro sublist_dropWhile_keep)
  then have "sublist (rev (rev t)) (str_strip s)"
    unfolding str_strip_def by (simp only: sublist_rev)
  then show ?thesis by simp
qed

lemma str_strip_sublist: "sublist (str_strip s) s"
proof -
  have "sublist (rev (str_strip s)) (rev (dropWhile is_space s))"
    by (simp add: str_strip_def)
  then have "sublist (str_strip s) (dropWhile is_space s)"
    by (simp only: sublist_rev)
  also have "sublist (dropWhile is_space s) s"
    by simp
  finally show ?thesis .
qed



lemma upper_char_space: "is_space c \<Longrightarrow> upper_char c = c"
proof -
  have "\<forall>c\<in>set whitespace. upper_char c = c"
    by (simp add: whitespace_def upper_char_def upper_letters_def lower_letters_def)
  then show "is_space c \<Longrightarrow> upper_char c = c"
    by (simp add: is_space_def)
qed


lemma marker_no_space:
  assumes "str_upper t = ''EMERGENCY''"
  shows "t \<noteq> [] \<and> \<not> is_space (hd t) \<and> \<not> is_space (last t)"
proof -
  from assms have ne: "t \<noteq> []"
    by (auto simp: str_upper_def)
  have "hd (map upper_char t) = CHR ''E''" and "last (map upper_char t) = CHR ''Y''"
    using assms by (simp_all add: str_upper_def)
  with ne have h: "upper_char (hd t) = CHR ''E''" and l: "upper_char (last t) = CHR ''Y''"
    by (simp_all add: hd_map last_map)
  have E: "\<not> is_space (CHR ''E'')" and Y: "\<not> is_space (CHR ''Y'')"
    by (simp_all add: is_space_def whitespace_def)
  have "\<not> is_space (hd t)"
  proof
    assume "is_space (hd t)"
    then show False
      using upper_char_space [of "hd t"] h E by simp
  qed
  moreover have "\<not> is_space (last t)"
  proof
    assume "is_space (last t)"
    then show False
      using upper_char_space [of "last t"] l Y by simp
  qed
  ultimately show ?thesis
    using ne by simp
qed



lemma sublist_upper_strip:
  assumes clean: "\<And>t. str_upper t = m \<Longrightarrow> t \<noteq> [] \<and> \<not> is_space (hd t) \<and> \<not> is_space (last t)"
  shows "sublist m (str_upper (str_strip c)) \<longleftrightarrow> (\<exists>t. sublist t c \<and> str_upper t = m)"
proof
  assume "sublist m (str_upper (str_strip c))"
  then have "\<exists>t. sublist t (str_strip c) \<and> map upper_char t = m"
    by (simp only: str_upper_def sublist_map_iff)
  then obtain t where t: "sublist t (str_strip c)" "str_upper t = m"
    by (auto simp: str_upper_def)
  have "sublist (str_strip c) c"
    by (rule str_strip_sublist)
  with t(1) have "sublist t c"
    by (rule sublist_order.order_trans)
  with t(2) show "\<exists>t. sublist t c \<and> str_upper t = m"
    by blast
next
  assume "\<exists>t. sublist t c \<and> str_upper t = m"
  then obtain t where t: "sublist t c" "str_upper t = m"
    by blast
  from clean [OF t(2)] have "t \<noteq> []" "\<not> is_space (hd t)" "\<not> is_space (last t)"
    by simp_all
  with t(1) have "sublist t (str_strip c)"
    by (rule sublist_str_strip)
  then have "sublist (map upper_char t) (map upper_char (str_strip c))"
    by (rule map_mono_sublist)
  with t(2) show "sublist m (str_upper (str_strip c))"
    by (simp add: str_upper_def)
qed

lemma marker_test:
  "sublist ''EMERGENCY'' (str_upper (str_strip content))
     \<longleftrightarrow> (\<exists>t. sublist t content \<and> str_upper t = ''EMERGENCY'')"
  by (rule sublist_upper_strip) (rule marker_no_space)

section \<open>The pipeline never raises and never touches the store\<close>

lemma keyword_never_raises: "\<exists>b. is_emergency_keyword v = Inr b"
  by (cases v) (auto simp: is_emergency_keyword_def)

lemma openai_never_raises: "\<exists>b. fst (is_emergency_openai e v w) = Inr b"
  by (cases v) (auto simp: is_emergency_openai_def Let_def split: sum.splits prod.splits)

lemma openai_frame:
  "layer (snd (is_emergency_openai e v w)) = layer w
   \<and> edit_requests (snd (is_emergency_openai e v w)) = edit_requests w
   \<and> keyword_calls (snd (is_emergency_openai e v w)) = keyword_calls w"
  by (cases v) (auto simp: is_emergency_openai_def openai_try_def py_print_def Let_def
      split: sum.splits prod.splits)

lemma stage2_never_raises: "\<exists>b. fst (stage2 e v k w) = Inr b"
  by (cases k) (auto simp: stage2_def openai_never_raises)

lemma decide_never_raises: "\<exists>b. fst (decide e v w) = Inr b"
proof -
  obtain k where "is_emergency_keyword v = Inr k"
    using keyword_never_raises by blast
  then show ?thesis
    using stage2_never_raises by (simp add: decide_def Let_def)
qed

lemma triage_never_raises: "\<exists>f. fst (triage e feature w) = Inr f"
proof -
  obtain b where "fst (decide e (dict_get feature NOTES_FIELD) (announce feature w)) = Inr b"
    using decide_never_raises by blast
  then show ?thesis
    by (auto simp: triage_def split: prod.splits sum.splits)
qed

lemma stage2_frame:
  "layer (snd (stage2 e v k w)) = layer w \<and> edit_requests (snd (stage2 e v k w)) = edit_requests w"
  by (cases k) (simp_all add: stage2_def openai_frame py_print_def)

lemma decide_frame:
  "layer (snd (decide e v w)) = layer w \<and> edit_requests (snd (decide e v w)) = edit_requests w"
proof -
  obtain k where "is_emergency_keyword v = Inr k"
    using keyword_never_raises by blast
  then show ?thesis
    using stage2_frame by (simp add: decide_def Let_def)
qed

lemma triage_frame:
  "layer (snd (triage e f w)) = layer w \<and> edit_requests (snd (triage e f w)) = edit_requests w"
proof -
  have "layer (snd (decide e (dict_get f NOTES_FIELD) (announce f w))) = layer (announce f w)"
    and "edit_requests (snd (decide e (dict_get f NOTES_FIELD) (announce f w))) = edit_requests (announce f w)"
    using decide_frame by simp_all
  then show ?thesis
    by (auto simp: triage_def announce_def py_print_def split: prod.splits sum.splits)
qed

lemma analyze_frame:
  "layer (snd (analyze e fs acc w)) = layer w \<and> edit_requests (snd (analyze e fs acc w)) = edit_requests w"
proof (induction fs arbitrary: acc w)
  case Nil
  show ?case by simp
next
  case (Cons f fs)
  show ?case
  proof (cases "triage e f w")
    case (Pair r w1)
    with triage_frame [of e f w] have w1: "layer w1 = layer w" "edit_requests w1 = edit_requests w"
      by simp_all
    show ?thesis
    proof (cases r)
      case (Inl ex)
      with Pair w1 show ?thesis by simp
    next
      case (Inr flagged)
      with Pair w1 Cons.IH [of "acc @ [flagged]" w1] show ?thesis by simp
    qed
  qed
qed

lemma analyze_never_raises: "\<exists>us. fst (analyze e fs acc w) = Inr us \<and> length us = length acc + length fs"
proof (induction fs arbitrary: acc w)
  case Nil
  show ?case by simp
next
  case (Cons f fs)
  obtain flagged where "fst (triage e f w) = Inr flagged"
    using triage_never_raises by blast
  then obtain w1 where t: "triage e f w = (Inr flagged, w1)"
    by (cases "triage e f w") simp
  from Cons.IH [of "acc @ [flagged]" w1] t show ?case
    by auto
qed

section \<open>The keyword stage: results\<close>

text \<open>
  C3. On every value that is not a string, \<^verbatim>\<open>None\<close> included, the keyword stage returns
  false: the \<^verbatim>\<open>isinstance\<close> guard answers before \<^verbatim>\<open>lower\<close> is called, so no exception
  is raised (the result is \<open>Inr\<close>).
\<close>

theorem keyword_non_string_false:
  "\<not> isinstance_str v \<Longrightarrow> is_emergency_keyword v = Inr False"
  by (simp add: is_emergency_keyword_def)

theorem keyword_non_string_false_witness:
  "is_emergency_keyword PyNone = Inr False \<and> is_emergency_keyword (PyInt 42) = Inr False
   \<and> is_emergency_keyword (PyObj 0) = Inr False \<and> is_emergency_keyword (PyBool True) = Inr False"
  using keyword_non_string_false [of PyNone] keyword_non_string_false [of "PyInt 42"]
    keyword_non_string_false [of "PyObj 0"] keyword_non_string_false [of "PyBool True"]
  by simp

text \<open>
  C4. On a string the keyword stage returns true exactly when some term of the fixed
  vocabulary occurs in it as a contiguous piece, in any letter case; it returns false
  on a string with no such occurrence.
\<close>

theorem keyword_caseless_substring:
  "is_emergency_keyword (PyStr s) = Inr (\<exists>w\<in>set emergency_words. contains_caseless s w)"
proof -
  have "sublist w (str_lower s) \<longleftrightarrow> contains_caseless s w" if "w \<in> set emergency_words" for w
    using emergency_words_lower [OF that]
    by (simp add: contains_caseless_def caseless_eq_def str_lower_def sublist_map_iff)
  then show ?thesis
    by (simp add: is_emergency_keyword_def list_ex_iff)
qed

theorem keyword_caseless_substring_witness:
  "is_emergency_keyword (PyStr ''My house is on FIRE! Help!'') = Inr True
   \<and> \<not> (\<exists>w\<in>set emergency_words. contains_caseless ''When will the power be back on?'' w)"
proof -
  have "sublist ''FIRE'' ''My house is on FIRE! Help!''"
    by (simp add: sublist_code(3))
  then have "contains_caseless ''My house is on FIRE! Help!'' ''fire''"
    unfolding contains_caseless_def caseless_eq_def
    by (intro exI [of _ "''FIRE''"]) (simp add: char_eval)
  then have "\<exists>w\<in>set emergency_words. contains_caseless ''My house is on FIRE! Help!'' w"
    by (auto simp: emergency_words_def)
  then have yes: "is_emergency_keyword (PyStr ''My house is on FIRE! Help!'') = Inr True"
    using keyword_caseless_substring [of "''My house is on FIRE! Help!''"] by simp
  have "is_emergency_keyword (PyStr ''When will the power be back on?'') = Inr False"
    by (simp add: is_emergency_keyword_def emergency_words_def char_eval sublist_code(3))
  then have no: "\<not> (\<exists>w\<in>set emergency_words. contains_caseless ''When will the power be back on?'' w)"
    using keyword_caseless_substring [of "''When will the power be back on?''"] by simp
  from yes no show ?thesis by simp
qed

text \<open>
  C10. The match knows no word boundary: whatever characters stand before and after
  an occurrence of a vocabulary term (letters included, as in "helpful" or
  "wildfire"), the keyword stage returns true.
\<close>

theorem keyword_no_word_boundary:
  "str_lower t \<in> set emergency_words \<Longrightarrow> is_emergency_keyword (PyStr (pre @ t @ suf)) = Inr True"
proof -
  assume "str_lower t \<in> set emergency_words"
  moreover have "sublist (str_lower t) (str_lower (pre @ t @ suf))"
    by (simp add: str_lower_def)
  ultimately show ?thesis
    by (auto simp: is_emergency_keyword_def list_ex_iff)
qed

theorem keyword_no_word_boundary_witness:
  "is_emergency_keyword (PyStr ''helpful'') = Inr True
   \<and> is_emergency_keyword (PyStr ''The wildfires are far away'') = Inr True
   \<and> is_emergency_keyword (PyStr ''Unhelpful'') = Inr True"
  using keyword_no_word_boundary [of "''help''" "[]" "''ful''"]
    keyword_no_word_boundary [of "''fire''" "''The wild''" "''s are far away''"]
    keyword_no_word_boundary [of "''help''" "''Un''" "''ful''"]
  by (simp add: emergency_words_def char_eval)

section \<open>Evaluation rules\<close>

lemmas field_eval = NOTES_FIELD_def OBJECTID_FIELD_def FLAG_FIELD_def dict_get_def
lemmas example_eval = example_env_def backend_down_def no_credential_def no_library_def
  backend_garbled_def backend_silent_def nbsp_note_def example_environ_def fire_note_def
  power_note_def example_world_def example_layer_def done_layer_def done_world_def
lemmas stage_eval = is_emergency_keyword_def emergency_words_def sublist_code(3)
  is_emergency_openai_def openai_try_def openai_label_def str_strip_def py_print_def
  stage2_def decide_def announce_def triage_def flag_of_def

lemma power_note_decided:
  "fst (decide example_env (dict_get power_note NOTES_FIELD) (announce power_note example_world))
     = Inr False"
  by (simp add: stage_eval char_eval example_eval field_eval)

lemma fire_note_decided:
  "fst (decide example_env (dict_get fire_note NOTES_FIELD) (announce fire_note example_world))
     = Inr True"
  by (simp add: stage_eval char_eval example_eval field_eval)

section \<open>The semantic stage and the pipeline: results\<close>

text \<open>
  C5. When the keyword stage returns true for a record's note, the pipeline decides
  at the keyword stage: the record is labelled "911_REVIEW", \<^verbatim>\<open>is_emergency_openai\<close> is
  not called (the call counter stands still) and no request goes to the inference
  backend.
\<close>

theorem keyword_short_circuit:
  assumes "is_emergency_keyword (dict_get feature NOTES_FIELD) = Inr True"
  shows "fst (triage e feature w) = Inr (AList.update FLAG_FIELD (PyStr ''911_REVIEW'') feature)
     \<and> semantic_calls (snd (triage e feature w)) = semantic_calls w
     \<and> openai_requests (snd (triage e feature w)) = openai_requests w"
  using assms
  by (simp add: triage_def decide_def stage2_def announce_def py_print_def flag_of_def Let_def)

theorem keyword_short_circuit_witness:
  "fst (triage backend_down fire_note example_world)
     = Inr (fire_note @ [(''ai_flag'', PyStr ''911_REVIEW'')])
   \<and> semantic_calls (snd (triage backend_down fire_note example_world)) = 0
   \<and> openai_requests (snd (triage backend_down fire_note example_world)) = []"
proof -
  have "is_emergency_keyword (dict_get fire_note NOTES_FIELD) = Inr True"
    by (simp add: fire_note_def field_eval is_emergency_keyword_def emergency_words_def
        char_eval sublist_code(3))
  from keyword_short_circuit [OF this, of backend_down example_world] show ?thesis
    by (simp add: fire_note_def FLAG_FIELD_def example_world_def)
qed

text \<open>
  C6. On \<^verbatim>\<open>None\<close>, on any other value that is not a string, on the empty string and on
  a string of white space only (all that \<^verbatim>\<open>str.strip()\<close> removes, next line and no-break
  space included), the semantic stage returns false, sends no request to the
  inference backend and prints nothing.
\<close>

theorem semantic_blank_no_call:
  assumes "\<not> isinstance_str v \<or> (\<exists>s. v = PyStr s \<and> (\<forall>c\<in>set s. is_space c))"
  shows "fst (is_emergency_openai e v w) = Inr False
     \<and> openai_requests (snd (is_emergency_openai e v w)) = openai_requests w
     \<and> stdout (snd (is_emergency_openai e v w)) = stdout w"
proof (cases "isinstance_str v")
  case False
  then show ?thesis
    by (simp add: is_emergency_openai_def Let_def)
next
  case True
  with assms obtain s where "v = PyStr s" and "\<forall>c\<in>set s. is_space c"
    by blast
  then have "py_strip v = Inr []"
    by (simp add: str_strip_empty_iff)
  with True show ?thesis
    by (simp add: is_emergency_openai_def Let_def)
qed

theorem semantic_blank_no_call_witness:
  "fst (is_emergency_openai backend_alarm PyNone example_world) = Inr False
   \<and> openai_requests (snd (is_emergency_openai backend_alarm PyNone example_world)) = []
   \<and> fst (is_emergency_openai backend_alarm (PyInt 7) example_world) = Inr False
   \<and> openai_requests (snd (is_emergency_openai backend_alarm (PyInt 7) example_world)) = []
   \<and> fst (is_emergency_openai backend_alarm (PyStr []) example_world) = Inr False
   \<and> openai_requests (snd (is_emergency_openai backend_alarm (PyStr []) example_world)) = []
   \<and> fst (is_emergency_openai backend_alarm (PyStr [CHR '' '', CHR 0x09, CHR 0x0A]) example_world)
       = Inr False
   \<and> openai_requests (snd (is_emergency_openai backend_alarm
         (PyStr [CHR '' '', CHR 0x09, CHR 0x0A]) example_world)) = []
   \<and> fst (is_emergency_openai backend_alarm (PyStr [CHR 0xA0]) example_world) = Inr False
   \<and> openai_requests (snd (is_emergency_openai backend_alarm (PyStr [CHR 0xA0]) example_world)) = []
   \<and> stdout (snd (is_emergency_openai backend_down (PyStr [CHR 0xA0]) example_world)) = []
   \<and> fst (is_emergency_openai backend_alarm (PyStr [CHR 0x85, CHR 0x1F]) example_world) = Inr False
   \<and> openai_requests (snd (is_emergency_openai backend_alarm (PyStr [CHR 0x85, CHR 0x1F])
         example_world)) = []"
proof -
  have a: "\<not> isinstance_str PyNone \<or> (\<exists>s. PyNone = PyStr s \<and> (\<forall>c\<in>set s. is_space c))"
    by simp
  have b: "\<not> isinstance_str (PyInt 7) \<or> (\<exists>s. PyInt 7 = PyStr s \<and> (\<forall>c\<in>set s. is_space c))"
    by simp
  have c: "\<not> isinstance_str (PyStr []) \<or> (\<exists>s. PyStr [] = PyStr s \<and> (\<forall>c\<in>set s. is_space c))"
    by simp
  have d: "\<not> isinstance_str (PyStr [CHR '' '', CHR 0x09, CHR 0x0A])
      \<or> (\<exists>s. PyStr [CHR '' '', CHR 0x09, CHR 0x0A] = PyStr s \<and> (\<forall>c\<in>set s. is_space c))"
    by (simp add: is_space_def whitespace_def)
  have n: "\<not> isinstance_str (PyStr [CHR 0xA0])
      \<or> (\<exists>s. PyStr [CHR 0xA0] = PyStr s \<and> (\<forall>c\<in>set s. is_space c))"
    by (simp add: is_space_def whitespace_def)
  have l: "\<not> isinstance_str (PyStr [CHR 0x85, CHR 0x1F])
      \<or> (\<exists>s. PyStr [CHR 0x85, CHR 0x1F] = PyStr s \<and> (\<forall>c\<in>set s. is_space c))"
    by (simp add: is_space_def whitespace_def)
  have "openai_requests example_world = []" and "stdout example_world = []"
    by (simp_all add: example_world_def)
  with semantic_blank_no_call [OF a, of backend_alarm example_world]
    semantic_blank_no_call [OF b, of backend_alarm example_world]
    semantic_blank_no_call [OF c, of backend_alarm example_world]
    semantic_blank_no_call [OF d, of backend_alarm example_world]
    semantic_blank_no_call [OF n, of backend_alarm example_world]
    semantic_blank_no_call [OF n, of backend_down example_world]
    semantic_blank_no_call [OF l, of backend_alarm example_world]
  show ?thesis by simp
qed

lemma openai_answered:
  assumes "v = PyStr s" and "str_strip s \<noteq> []" and "openai_installed e"
    and "truthy (environ e ''OPENAI_API_KEY'')" and "openai_create e v = Inr response"
  shows "fst (is_emergency_openai e v w)
     = Inr (case openai_label response of Inl ex \<Rightarrow> False | Inr b \<Rightarrow> b)"
  using assms
  by (simp add: is_emergency_openai_def openai_try_def Let_def split: sum.splits)

text \<open>
  C7. The label written on a record is exactly "911_REVIEW" when the decision is
  true and exactly "OK" when it is false. When the backend answers, the semantic
  stage returns true exactly when the first choice's content contains the marker
  EMERGENCY; the content is stripped and upper-cased before the test, so the marker
  is found in any letter case, and every other content gives false.
\<close>

theorem label_mapping:
  "(fst (decide e (dict_get f NOTES_FIELD) (announce f w)) = Inr b \<longrightarrow>
      (\<exists>f'. fst (triage e f w) = Inr f'
         \<and> map_of f' FLAG_FIELD = Some (PyStr (if b then ''911_REVIEW'' else ''OK''))))
   \<and> (str_strip s \<noteq> [] \<and> openai_installed e \<and> truthy (environ e ''OPENAI_API_KEY'')
        \<and> openai_create e (PyStr s) = Inr (Some content # rest) \<longrightarrow>
      fst (is_emergency_openai e (PyStr s) w)
        = Inr (\<exists>t. sublist t content \<and> str_upper t = ''EMERGENCY''))"
proof (intro conjI impI)
  assume "fst (decide e (dict_get f NOTES_FIELD) (announce f w)) = Inr b"
  then have "fst (triage e f w) = Inr (AList.update FLAG_FIELD (PyStr (flag_of b)) f)"
    by (cases "decide e (dict_get f NOTES_FIELD) (announce f w)") (simp add: triage_def)
  moreover have "map_of (AList.update FLAG_FIELD (PyStr (flag_of b)) f) FLAG_FIELD
      = Some (PyStr (if b then ''911_REVIEW'' else ''OK''))"
    by (simp add: update_conv' flag_of_def)
  ultimately show "\<exists>f'. fst (triage e f w) = Inr f'
      \<and> map_of f' FLAG_FIELD = Some (PyStr (if b then ''911_REVIEW'' else ''OK''))"
    by simp
next
  assume a: "str_strip s \<noteq> [] \<and> openai_installed e \<and> truthy (environ e ''OPENAI_API_KEY'')
        \<and> openai_create e (PyStr s) = Inr (Some content # rest)"
  have "openai_label (Some content # rest)
      = Inr (\<exists>t. sublist t content \<and> str_upper t = ''EMERGENCY'')"
    by (simp only: openai_label_def list.case option.case marker_test)
  with a show "fst (is_emergency_openai e (PyStr s) w)
        = Inr (\<exists>t. sublist t content \<and> str_upper t = ''EMERGENCY'')"
    by (simp add: openai_answered [of "PyStr s" s e "Some content # rest" w])
qed

theorem label_mapping_witness:
  "(\<exists>f'. fst (triage example_env power_note example_world) = Inr f'
       \<and> map_of f' FLAG_FIELD = Some (PyStr ''OK''))
   \<and> (\<exists>f'. fst (triage example_env fire_note example_world) = Inr f'
       \<and> map_of f' FLAG_FIELD = Some (PyStr ''911_REVIEW''))
   \<and> fst (is_emergency_openai backend_alarm (PyStr ''My mother is out of oxygen'') example_world)
       = Inr True
   \<and> fst (is_emergency_openai example_env (PyStr ''My mother is out of oxygen'') example_world)
       = Inr False"
proof -
  have ok: "(\<exists>t. sublist t ''OK'' \<and> str_upper t = ''EMERGENCY'') = False"
    unfolding marker_test [symmetric] by (simp add: str_strip_def char_eval sublist_code(3))
  have alarm: "(\<exists>t. sublist t '' emergency'' \<and> str_upper t = ''EMERGENCY'') = True"
    unfolding marker_test [symmetric] by (simp add: str_strip_def char_eval sublist_code(3))
  have pre: "str_strip ''My mother is out of oxygen'' \<noteq> []"
    by (simp add: str_strip_def char_eval)
  have env1: "openai_installed example_env \<and> truthy (environ example_env ''OPENAI_API_KEY'')
      \<and> openai_create example_env (PyStr ''My mother is out of oxygen'') = Inr (Some ''OK'' # [])"
    by (simp add: example_env_def example_environ_def)
  have env2: "openai_installed backend_alarm \<and> truthy (environ backend_alarm ''OPENAI_API_KEY'')
      \<and> openai_create backend_alarm (PyStr ''My mother is out of oxygen'')
          = Inr (Some '' emergency'' # [None])"
    by (simp add: backend_alarm_def example_env_def example_environ_def)
  show ?thesis
    using label_mapping [where e = example_env and f = power_note and w = example_world
        and b = False and s = "''My mother is out of oxygen''" and content = "''OK''" and rest = "[]"]
      label_mapping [where e = example_env and f = fire_note and w = example_world
        and b = True]
      label_mapping [where e = backend_alarm and w = example_world
        and s = "''My mother is out of oxygen''" and content = "'' emergency''" and rest = "[None]"]
      power_note_decided fire_note_decided pre env1 env2
    by (simp only: ok alarm simp_thms if_True if_False)
qed

section \<open>A failing semantic stage\<close>

lemma power_note_keyword:
  "is_emergency_keyword (dict_get power_note NOTES_FIELD) = Inr False"
  by (simp add: stage_eval char_eval example_eval field_eval)

lemma blank_guard: "blank v \<longleftrightarrow> (\<not> isinstance_str v \<or> py_strip v = Inr [])"
  by (cases v) (simp_all add: blank_def str_strip_empty_iff list_all_iff)

lemma openai_blank:
  assumes "blank v"
  shows "is_emergency_openai e v w = (Inr False, w\<lparr>semantic_calls := semantic_calls w + 1\<rparr>)"
  using assms unfolding blank_guard
  by (auto simp: is_emergency_openai_def Let_def)

lemma openai_not_blank:
  assumes "\<not> blank v"
  shows "is_emergency_openai e v w =
     (let w1 = w\<lparr>semantic_calls := semantic_calls w + 1\<rparr>
      in if \<not> openai_installed e then
           (Inr False,
            py_print [Txt ''Please run 'pip install openai' to install it.'']
              (py_print [Txt ''Error: The 'openai' library is required for this function.''] w1))
         else if \<not> truthy (environ e ''OPENAI_API_KEY'') then
           (Inr False,
            py_print [Txt ''Error: OPENAI_API_KEY environment variable not set. Please add it to your .env file.''] w1)
         else
           (case openai_try e v w1 of
              (Inl ex, w2) \<Rightarrow>
                (Inr False,
                 py_print [Txt ''An error occurred while calling the OpenAI API: '', Err ex] w2)
            | (Inr b, w2) \<Rightarrow> (Inr b, w2)))"
proof -
  from assms obtain s where "v = PyStr s" and "str_strip s \<noteq> []"
    unfolding blank_guard by (cases v) auto
  then show ?thesis
    by (simp add: is_emergency_openai_def Let_def)
qed

lemma openai_try_stdout: "stdout (snd (openai_try e v w)) = stdout w"
  by (simp add: openai_try_def Let_def split: sum.splits)

lemma openai_try_fst:
  "fst (openai_try e v w) =
     (case openai_create e v of Inl ex \<Rightarrow> Inl ex | Inr response \<Rightarrow> openai_label response)"
  by (simp add: openai_try_def Let_def split: sum.splits)

lemma openai_failed:
  assumes "semantic_call_fails e v"
  shows "fst (is_emergency_openai e v w) = Inr False"
proof (cases "blank v")
  case True
  then show ?thesis
    by (simp add: openai_blank)
next
  case False
  obtain r w2 where t: "openai_try e v (w\<lparr>semantic_calls := semantic_calls w + 1\<rparr>) = (r, w2)"
    by (cases "openai_try e v (w\<lparr>semantic_calls := semantic_calls w + 1\<rparr>)")
  have "r = (case openai_create e v of Inl ex \<Rightarrow> Inl ex | Inr response \<Rightarrow> openai_label response)"
    using openai_try_fst [of e v "w\<lparr>semantic_calls := semantic_calls w + 1\<rparr>"] t by simp
  with assms t show ?thesis
    by (auto simp: openai_not_blank [OF False] semantic_call_fails_def Let_def split: sum.splits)
qed

lemma openai_answer_silent:
  assumes "\<not> semantic_call_fails e v"
  shows "stdout (snd (is_emergency_openai e v w)) = stdout w"
proof (cases "blank v")
  case True
  then show ?thesis
    by (simp add: openai_blank)
next
  case False
  obtain r w2 where t: "openai_try e v (w\<lparr>semantic_calls := semantic_calls w + 1\<rparr>) = (r, w2)"
    by (cases "openai_try e v (w\<lparr>semantic_calls := semantic_calls w + 1\<rparr>)")
  have r: "r = (case openai_create e v of Inl ex \<Rightarrow> Inl ex | Inr response \<Rightarrow> openai_label response)"
    using openai_try_fst [of e v "w\<lparr>semantic_calls := semantic_calls w + 1\<rparr>"] t by simp
  have w2: "stdout w2 = stdout w"
    using openai_try_stdout [of e v "w\<lparr>semantic_calls := semantic_calls w + 1\<rparr>"] t by simp
  from assms r t w2 show ?thesis
    by (auto simp: openai_not_blank [OF False] semantic_call_fails_def Let_def split: sum.splits)
qed

lemma openai_error_line:
  assumes "\<not> blank v" and "openai_installed e" and "truthy (environ e ''OPENAI_API_KEY'')"
    and "(case openai_create e v of Inl x \<Rightarrow> Inl x | Inr response \<Rightarrow> openai_label response) = Inl ex"
  shows "stdout (snd (is_emergency_openai e v w))
     = stdout w @ [[Txt ''An error occurred while calling the OpenAI API: '', Err ex]]"
proof -
  obtain r w2 where t: "openai_try e v (w\<lparr>semantic_calls := semantic_calls w + 1\<rparr>) = (r, w2)"
    by (cases "openai_try e v (w\<lparr>semantic_calls := semantic_calls w + 1\<rparr>)")
  have r: "r = Inl ex"
    using openai_try_fst [of e v "w\<lparr>semantic_calls := semantic_calls w + 1\<rparr>"] t assms(4) by simp
  have w2: "stdout w2 = stdout w"
    using openai_try_stdout [of e v "w\<lparr>semantic_calls := semantic_calls w + 1\<rparr>"] t by simp
  from assms(2,3) r t w2 show ?thesis
    by (simp add: openai_not_blank [OF assms(1)] py_print_def Let_def)
qed

text \<open>
  C1, as the code has it. When the keyword stage returns false and the semantic
  stage's external call fails (the library or the credential is missing, building
  the client or sending the request raises, or the answer has no choice or a choice
  without content), the record is labelled "OK", the semantic stage returns the plain
  \<^verbatim>\<open>False\<close> of a negative answer and no exception leaves the pipeline. The failure shows
  only on standard output, and only when the note is not blank: the semantic stage
  then prints exactly the two lines about the missing library, or the line about the
  missing credential, or the line "An error occurred while calling the OpenAI API: "
  with the exception. On a blank note it returns before any check: it prints nothing
  and sends nothing. A stage whose call does not fail (\<open>e'\<close>) prints nothing.
\<close>

theorem semantic_failure_degrades:
  assumes "is_emergency_keyword (dict_get f NOTES_FIELD) = Inr False"
    and "semantic_call_fails e (dict_get f NOTES_FIELD)"
  shows "fst (triage e f w) = Inr (AList.update FLAG_FIELD (PyStr ''OK'') f)
     \<and> fst (is_emergency_openai e (dict_get f NOTES_FIELD) w) = Inr False
     \<and> (blank (dict_get f NOTES_FIELD) \<longrightarrow>
          stdout (snd (is_emergency_openai e (dict_get f NOTES_FIELD) w)) = stdout w
          \<and> openai_requests (snd (is_emergency_openai e (dict_get f NOTES_FIELD) w))
              = openai_requests w)
     \<and> (\<not> blank (dict_get f NOTES_FIELD) \<and> \<not> openai_installed e \<longrightarrow>
          stdout (snd (is_emergency_openai e (dict_get f NOTES_FIELD) w))
            = stdout w @ [[Txt ''Error: The 'openai' library is required for this function.''],
                          [Txt ''Please run 'pip install openai' to install it.'']])
     \<and> (\<not> blank (dict_get f NOTES_FIELD) \<and> openai_installed e
          \<and> \<not> truthy (environ e ''OPENAI_API_KEY'') \<longrightarrow>
          stdout (snd (is_emergency_openai e (dict_get f NOTES_FIELD) w))
            = stdout w @ [[Txt ''Error: OPENAI_API_KEY environment variable not set. Please add it to your .env file.'']])
     \<and> (\<not> blank (dict_get f NOTES_FIELD) \<and> openai_installed e
          \<and> truthy (environ e ''OPENAI_API_KEY'')
          \<and> openai_create e (dict_get f NOTES_FIELD) = Inl ex \<longrightarrow>
          stdout (snd (is_emergency_openai e (dict_get f NOTES_FIELD) w))
            = stdout w @ [[Txt ''An error occurred while calling the OpenAI API: '', Err ex]])
     \<and> (\<not> blank (dict_get f NOTES_FIELD) \<and> openai_installed e
          \<and> truthy (environ e ''OPENAI_API_KEY'')
          \<and> openai_create e (dict_get f NOTES_FIELD) = Inr response
          \<and> openai_label response = Inl ex' \<longrightarrow>
          stdout (snd (is_emergency_openai e (dict_get f NOTES_FIELD) w))
            = stdout w @ [[Txt ''An error occurred while calling the OpenAI API: '', Err ex']])
     \<and> (\<not> semantic_call_fails e' (dict_get f NOTES_FIELD) \<longrightarrow>
          stdout (snd (is_emergency_openai e' (dict_get f NOTES_FIELD) w)) = stdout w)"
proof -
  let ?v = "dict_get f NOTES_FIELD"
  have sem: "fst (is_emergency_openai e ?v w') = Inr False" for w'
    using assms(2) by (rule openai_failed)
  have "fst (decide e ?v (announce f w)) = Inr False"
    using assms(1) sem by (simp add: decide_def stage2_def Let_def)
  then have label: "fst (triage e f w) = Inr (AList.update FLAG_FIELD (PyStr ''OK'') f)"
    by (cases "decide e ?v (announce f w)") (simp add: triage_def flag_of_def)
  have quiet_blank: "blank ?v \<longrightarrow>
      stdout (snd (is_emergency_openai e ?v w)) = stdout w
      \<and> openai_requests (snd (is_emergency_openai e ?v w)) = openai_requests w"
    by (simp add: openai_blank)
  have library: "\<not> blank ?v \<and> \<not> openai_installed e \<longrightarrow>
      stdout (snd (is_emergency_openai e ?v w))
        = stdout w @ [[Txt ''Error: The 'openai' library is required for this function.''],
                      [Txt ''Please run 'pip install openai' to install it.'']]"
    by (simp add: openai_not_blank py_print_def Let_def)
  have credential: "\<not> blank ?v \<and> openai_installed e \<and> \<not> truthy (environ e ''OPENAI_API_KEY'') \<longrightarrow>
      stdout (snd (is_emergency_openai e ?v w))
        = stdout w @ [[Txt ''Error: OPENAI_API_KEY environment variable not set. Please add it to your .env file.'']]"
    by (simp add: openai_not_blank py_print_def Let_def)
  have raised: "\<not> blank ?v \<and> openai_installed e \<and> truthy (environ e ''OPENAI_API_KEY'')
      \<and> openai_create e ?v = Inl ex \<longrightarrow>
      stdout (snd (is_emergency_openai e ?v w))
        = stdout w @ [[Txt ''An error occurred while calling the OpenAI API: '', Err ex]]"
    by (auto intro!: openai_error_line)
  have malformed: "\<not> blank ?v \<and> openai_installed e \<and> truthy (environ e ''OPENAI_API_KEY'')
      \<and> openai_create e ?v = Inr response \<and> openai_label response = Inl ex' \<longrightarrow>
      stdout (snd (is_emergency_openai e ?v w))
        = stdout w @ [[Txt ''An error occurred while calling the OpenAI API: '', Err ex']]"
    by (auto intro!: openai_error_line)
  have answered: "\<not> semantic_call_fails e' ?v \<longrightarrow>
      stdout (snd (is_emergency_openai e' ?v w)) = stdout w"
    by (simp add: openai_answer_silent)
  from label sem [of w] quiet_blank library credential raised malformed answered
  show ?thesis
    by (intro conjI)
qed

lemma power_note_not_blank: "\<not> blank (dict_get power_note NOTES_FIELD)"
  by (simp add: blank_def power_note_def field_eval is_space_def whitespace_def)

lemma backend_down_fails: "semantic_call_fails backend_down (dict_get power_note NOTES_FIELD)"
  by (simp add: semantic_call_fails_def example_eval)

lemma nbsp_note_keyword:
  "is_emergency_keyword (dict_get nbsp_note NOTES_FIELD) = Inr False"
  by (simp add: stage_eval char_eval example_eval field_eval)

theorem semantic_failure_degrades_witness:
  "fst (triage backend_down power_note example_world)
     = Inr (power_note @ [(''ai_flag'', PyStr ''OK'')])
   \<and> fst (is_emergency_openai backend_down (dict_get power_note NOTES_FIELD) example_world)
     = Inr False
   \<and> stdout (snd (is_emergency_openai backend_down (dict_get power_note NOTES_FIELD) example_world))
     = [[Txt ''An error occurred while calling the OpenAI API: '',
         Err (ServiceError ''Connection error.'')]]
   \<and> stdout (snd (is_emergency_openai backend_garbled (dict_get power_note NOTES_FIELD) example_world))
     = [[Txt ''An error occurred while calling the OpenAI API: '',
         Err (IndexError ''list index out of range'')]]
   \<and> stdout (snd (is_emergency_openai no_credential (dict_get power_note NOTES_FIELD) example_world))
     = [[Txt ''Error: OPENAI_API_KEY environment variable not set. Please add it to your .env file.'']]
   \<and> stdout (snd (is_emergency_openai no_library (dict_get power_note NOTES_FIELD) example_world))
     = [[Txt ''Error: The 'openai' library is required for this function.''],
        [Txt ''Please run 'pip install openai' to install it.'']]
   \<and> stdout (snd (is_emergency_openai example_env (dict_get power_note NOTES_FIELD) example_world))
     = []
   \<and> stdout (snd (is_emergency_openai backend_silent (dict_get power_note NOTES_FIELD) example_world))
     = []
   \<and> fst (triage backend_down nbsp_note example_world)
     = Inr (nbsp_note @ [(''ai_flag'', PyStr ''OK'')])
   \<and> stdout (snd (is_emergency_openai backend_down (dict_get nbsp_note NOTES_FIELD) example_world))
     = []
   \<and> openai_requests (snd (is_emergency_openai backend_down (dict_get nbsp_note NOTES_FIELD)
        example_world)) = []"
proof -
  let ?v = "dict_get power_note NOTES_FIELD"
  have start: "stdout example_world = []" "openai_requests example_world = []"
    by (simp_all add: example_world_def)
  have upd: "AList.update FLAG_FIELD (PyStr ''OK'') power_note
      = power_note @ [(''ai_flag'', PyStr ''OK'')]"
    "AList.update FLAG_FIELD (PyStr ''OK'') nbsp_note = nbsp_note @ [(''ai_flag'', PyStr ''OK'')]"
    by (simp_all add: power_note_def nbsp_note_def FLAG_FIELD_def)
  have down: "openai_installed backend_down" "truthy (environ backend_down ''OPENAI_API_KEY'')"
    "openai_create backend_down ?v = Inl (ServiceError ''Connection error.'')"
    by (simp_all add: example_eval)
  have answers: "\<not> semantic_call_fails example_env ?v"
    by (simp add: semantic_call_fails_def example_eval openai_label_def)
  have silent: "\<not> semantic_call_fails backend_silent ?v"
    by (simp add: semantic_call_fails_def example_eval openai_label_def)
  have garbled: "semantic_call_fails backend_garbled ?v" "openai_installed backend_garbled"
    "truthy (environ backend_garbled ''OPENAI_API_KEY'')" "openai_create backend_garbled ?v = Inr []"
    "openai_label [] = Inl (IndexError ''list index out of range'')"
    by (simp_all add: semantic_call_fails_def example_eval openai_label_def)
  have credential: "semantic_call_fails no_credential ?v" "openai_installed no_credential"
    "\<not> truthy (environ no_credential ''OPENAI_API_KEY'')"
    by (simp_all add: semantic_call_fails_def example_eval)
  have library: "semantic_call_fails no_library ?v" "\<not> openai_installed no_library"
    by (simp_all add: semantic_call_fails_def example_eval)
  have nbsp: "blank (dict_get nbsp_note NOTES_FIELD)"
    "semantic_call_fails backend_down (dict_get nbsp_note NOTES_FIELD)"
    by (simp_all add: blank_def semantic_call_fails_def example_eval field_eval
        is_space_def whitespace_def)
  note a = semantic_failure_degrades [OF power_note_keyword backend_down_fails,
      where w = example_world and ex = "ServiceError ''Connection error.''"
        and e' = example_env]
  note b = semantic_failure_degrades [OF power_note_keyword backend_down_fails,
      where w = example_world and e' = backend_silent]
  note c = semantic_failure_degrades [OF power_note_keyword garbled(1),
      where w = example_world and response = "[]"
        and ex' = "IndexError ''list index out of range''"]
  note d = semantic_failure_degrades [OF power_note_keyword credential(1),
      where w = example_world]
  note e = semantic_failure_degrades [OF power_note_keyword library(1),
      where w = example_world]
  note f = semantic_failure_degrades [OF nbsp_note_keyword nbsp(2), where w = example_world]
  from a down answers power_note_not_blank
  have 1: "fst (triage backend_down power_note example_world)
       = Inr (power_note @ [(''ai_flag'', PyStr ''OK'')])"
    and 2: "fst (is_emergency_openai backend_down ?v example_world) = Inr False"
    and 3: "stdout (snd (is_emergency_openai backend_down ?v example_world))
       = [[Txt ''An error occurred while calling the OpenAI API: '',
           Err (ServiceError ''Connection error.'')]]"
    and 7: "stdout (snd (is_emergency_openai example_env ?v example_world)) = []"
    by (simp_all add: start upd)
  from b silent
  have 8: "stdout (snd (is_emergency_openai backend_silent ?v example_world)) = []"
    by (simp add: start)
  from c garbled power_note_not_blank
  have 4: "stdout (snd (is_emergency_openai backend_garbled ?v example_world))
       = [[Txt ''An error occurred while calling the OpenAI API: '',
           Err (IndexError ''list index out of range'')]]"
    by (simp add: start)
  from d credential power_note_not_blank
  have 5: "stdout (snd (is_emergency_openai no_credential ?v example_world))
       = [[Txt ''Error: OPENAI_API_KEY environment variable not set. Please add it to your .env file.'']]"
    by (simp add: start)
  from e library power_note_not_blank
  have 6: "stdout (snd (is_emergency_openai no_library ?v example_world))
       = [[Txt ''Error: The 'openai' library is required for this function.''],
          [Txt ''Please run 'pip install openai' to install it.'']]"
    by (simp add: start)
  from f nbsp(1)
  have 9: "fst (triage backend_down nbsp_note example_world)
       = Inr (nbsp_note @ [(''ai_flag'', PyStr ''OK'')])"
    and 10: "stdout (snd (is_emergency_openai backend_down (dict_get nbsp_note NOTES_FIELD)
        example_world)) = []"
    and 11: "openai_requests (snd (is_emergency_openai backend_down (dict_get nbsp_note NOTES_FIELD)
        example_world)) = []"
    by (simp_all add: start upd)
  from 1 2 3 4 5 6 7 8 9 10 11 show ?thesis
    by (intro conjI)
qed

text \<open>
  C1, as stated, fails: with the backend down and with a backend answering "OK", the
  semantic stage returns the same value and the pipeline hands the same labelled
  record to the orchestrator. No flag tells the failure from a negative answer.
\<close>

theorem semantic_failure_not_flagged:
  "semantic_call_fails backend_down (dict_get power_note NOTES_FIELD)
   \<and> \<not> semantic_call_fails example_env (dict_get power_note NOTES_FIELD)
   \<and> fst (is_emergency_openai backend_down (dict_get power_note NOTES_FIELD) example_world)
     = fst (is_emergency_openai example_env (dict_get power_note NOTES_FIELD) example_world)
   \<and> fst (triage backend_down power_note example_world)
     = fst (triage example_env power_note example_world)"
proof -
  have "\<not> semantic_call_fails example_env (dict_get power_note NOTES_FIELD)"
    by (simp add: semantic_call_fails_def example_eval openai_label_def)
  moreover have "fst (is_emergency_openai example_env (dict_get power_note NOTES_FIELD) example_world)
      = Inr False"
    by (simp add: stage_eval char_eval example_eval field_eval)
  moreover have "fst (is_emergency_openai backend_down (dict_get power_note NOTES_FIELD) example_world)
      = Inr False"
    by (simp add: stage_eval char_eval example_eval field_eval)
  moreover have "fst (triage example_env power_note example_world)
     = Inr (power_note @ [(''ai_flag'', PyStr ''OK'')])"
    by (simp add: stage_eval char_eval example_eval field_eval)
  moreover have "fst (triage backend_down power_note example_world)
     = Inr (power_note @ [(''ai_flag'', PyStr ''OK'')])"
    by (simp add: stage_eval char_eval example_eval field_eval)
  ultimately show ?thesis
    using backend_down_fails by simp
qed

section \<open>The report of the batch write\<close>

lemma update_errors_failed_records: "update_errors result = map snd (failed_records result)"
  by (simp add: update_errors_def failed_records_def results_of_def comp_def)

lemma update_errors_length: "length (update_errors result) = failure_count result"
  by (simp add: update_errors_def failure_count_def results_of_def)

lemma counts_partition: "success_count result + failure_count result = length (results_of result)"
  by (simp add: success_count_def failure_count_def sum_length_filter_compl add.commute)

text \<open>
  C2, as the code has it. After a batch write that the store answers, the
  orchestrator prints the store's answer as it came and then one summary line: the
  list of the store-reported error reasons of the results that did not succeed, in
  the store's order (its length is the failure count), or, when no result failed,
  the line saying that all features were updated. It computes neither the success
  count nor the failure count as numbers, and the summary names no record.
\<close>

theorem report_lists_error_reasons:
  assumes "updates \<noteq> []" and "edit_features e (layer w) updates = (Inr result, l)"
  shows "stdout (apply_updates e updates w)
       = stdout w @ [[NL, Txt ''Applying updates for '', Num (length updates), Txt '' feature(s)...''],
                     [Txt ''Update results:'', Resp result],
                     summary result]
     \<and> (failure_count result = 0 \<longrightarrow>
          summary result = [Txt ''All features updated successfully in the layer.''])
     \<and> (failure_count result \<noteq> 0 \<longrightarrow>
          summary result = [NL, Txt ''Errors occurred during update: '',
                            Errs (map snd (failed_records result))])
     \<and> length (map snd (failed_records result)) = failure_count result
     \<and> success_count result + failure_count result = length (results_of result)"
proof -
  have "stdout (apply_updates e updates w)
       = stdout w @ [[NL, Txt ''Applying updates for '', Num (length updates), Txt '' feature(s)...''],
                     [Txt ''Update results:'', Resp result],
                     summary result]"
    using assms by (simp add: apply_updates_def report_def py_print_def Let_def)
  moreover have "failure_count result = 0 \<longleftrightarrow> update_errors result = []"
    using update_errors_length [of result] by auto
  ultimately show ?thesis
    using update_errors_failed_records [of result] update_errors_length [of result]
      counts_partition [of result]
    by (simp add: summary_def)
qed

lemmas report_eval = failed_def results_of_def success_count_def failure_count_def
  failed_records_def update_errors_def summary_def

theorem report_lists_error_reasons_witness:
  "stdout (apply_updates refusing_env [fire_note, power_note] example_world)
     = [[NL, Txt ''Applying updates for '', Num 2, Txt '' feature(s)...''],
        [Txt ''Update results:'', Resp answer_a],
        [NL, Txt ''Errors occurred during update: '', Errs [Some (1000, ''Row is locked'')]]]
   \<and> failure_count answer_a = 1 \<and> success_count answer_a = 1"
proof -
  have ne: "[fire_note, power_note] \<noteq> []"
    by simp
  have store: "edit_features refusing_env (layer example_world) [fire_note, power_note]
      = (Inr answer_a, layer example_world)"
    by (simp add: refusing_env_def)
  have counts: "failure_count answer_a = 1" "success_count answer_a = 1"
    and recs: "map snd (failed_records answer_a) = [Some (1000, ''Row is locked'')]"
    by (simp_all add: report_eval answer_a_def)
  have "stdout example_world = []"
    by (simp add: example_world_def)
  with report_lists_error_reasons [OF ne store] counts recs show ?thesis
    by simp
qed

text \<open>
  C2, as stated, fails: two answers of the store with different failed records and
  different success counts get the same summary line.
\<close>

theorem report_omits_counts_and_ids:
  "summary answer_a = summary answer_b
   \<and> failed_records answer_a \<noteq> failed_records answer_b
   \<and> success_count answer_a \<noteq> success_count answer_b"
  by (simp add: report_eval answer_a_def answer_b_def)

section \<open>The run of the orchestrator\<close>

lemma quiet_refl: "quiet w w"
  by (simp add: quiet_def)

lemma quiet_trans: "quiet w w1 \<Longrightarrow> quiet w1 w2 \<Longrightarrow> quiet w w2"
  by (simp add: quiet_def)

lemma quiet_print: "quiet w (py_print l w)"
  by (simp add: quiet_def py_print_def)

lemma layer_print: "layer (py_print l w) = layer w"
  by (simp add: py_print_def)

lemma connect_step:
  assumes "connect e w = (g, w1)"
  shows "quiet w w1" and "layer w1 = layer w"
  using assms
  by (auto simp: connect_def quiet_def py_print_def Let_def split: sum.splits if_splits)

lemma connect_fst: "fst (connect e w) = fst (connect e w')"
  by (auto simp: connect_def Let_def split: sum.splits if_splits)

lemma url_configured: "\<not> sublist ''PASTE_YOUR_FEATURE_LAYER_URL_HERE'' FEATURE_LAYER_URL"
  by (simp add: FEATURE_LAYER_URL_def sublist_code(3))

lemma access_step:
  assumes "access_layer e w = (b, w1)"
  shows "quiet w w1" and "layer w1 = layer w" and "b = (open_layer e = None)"
  using assms
  by (auto simp: access_layer_def url_configured quiet_def py_print_def Let_def split: option.splits)

lemma ensure_step:
  assumes "ensure_flag_field e w = (b, w1)"
  shows "quiet w w1"
    and "List.member (field_names (layer w)) FLAG_FIELD \<Longrightarrow> layer w1 = layer w"
    and "b = (List.member (field_names (layer w)) FLAG_FIELD \<or> add_to_definition e = None)"
  using assms
  by (auto simp: ensure_flag_field_def quiet_def py_print_def Let_def split: option.splits if_splits)

lemma query_step:
  assumes "query_features e w = (q, w1)"
  shows "quiet w w1" and "layer w1 = layer w"
    and "q = (if query_error e = None then Some (layer_query (layer w)) else None)"
    and "q = Some [] \<Longrightarrow> stdout w1 \<noteq> []"
  using assms
  by (auto simp: query_features_def quiet_def py_print_def Let_def split: option.splits)

lemma layer_query_rows: "rows l = rows l' \<Longrightarrow> layer_query l = layer_query l'"
  by (simp add: layer_query_def)

lemma layer_query_empty: "layer_query l = [] \<longleftrightarrow> (\<forall>a\<in>set (rows l). \<not> unprocessed a)"
  by (simp add: layer_query_def filter_empty_conv)


lemma apply_updates_step:
  "updates \<noteq> [] \<Longrightarrow>
     layer (apply_updates e updates w) = snd (edit_features e (layer w) updates)
     \<and> edit_requests (apply_updates e updates w) = edit_requests w @ [updates]"
  "updates = [] \<Longrightarrow>
     layer (apply_updates e updates w) = layer w
     \<and> edit_requests (apply_updates e updates w) = edit_requests w"
  by (auto simp: apply_updates_def report_def py_print_def Let_def split: prod.splits sum.splits)

lemma main_shape:
  "(\<exists>w'. main e w = (Inr (), w') \<and> quiet w w'
        \<and> (List.member (field_names (layer w)) FLAG_FIELD \<longrightarrow> layer w' = layer w)
        \<and> (store_answers e w \<longrightarrow> layer_query (layer w) = [] \<and> last (stdout w') = nothing_to_do))
   \<or> (\<exists>w4 w5 updates. layer_query (layer w) \<noteq> [] \<and> quiet w w4
        \<and> analyze e (layer_query (layer w)) [] w4 = (Inr updates, w5)
        \<and> main e w = (Inr (), py_print finished (apply_updates e updates w5)))"
proof -
  define w0 where "w0 = py_print [Txt ''--- Starting Emergency Analysis Script ---''] w"
  have q0: "quiet w w0" and l0: "layer w0 = layer w"
    by (simp_all add: w0_def quiet_print layer_print)
  obtain g w1 where c: "connect e w0 = (g, w1)"
    by (cases "connect e w0")
  note q1 = quiet_trans [OF q0 connect_step(1) [OF c]]
  have l1: "layer w1 = layer w"
    using connect_step(2) [OF c] l0 by simp
  have g: "fst (connect e w) = g"
    using connect_fst [of e w w0] c by simp
  show ?thesis
  proof (cases g)
    case None
    then have "main e w = (Inr (), w1)"
      by (simp add: main_def w0_def [symmetric] c)
    moreover have "\<not> store_answers e w"
      using g None by (simp add: store_answers_def)
    ultimately show ?thesis
      using q1 l1 by simp
  next
    case (Some gis)
    obtain b2 w2 where a: "access_layer e w1 = (b2, w2)"
      by (cases "access_layer e w1")
    note q2 = quiet_trans [OF q1 access_step(1) [OF a]]
    have l2: "layer w2 = layer w"
      using access_step(2) [OF a] l1 by simp
    show ?thesis
    proof (cases b2)
      case False
      then have "main e w = (Inr (), w2)"
        by (simp add: main_def w0_def [symmetric] c Some a)
      moreover have "\<not> store_answers e w"
        using access_step(3) [OF a] False by (simp add: store_answers_def)
      ultimately show ?thesis
        using q2 l2 by simp
    next
      case True
      obtain b3 w3 where f: "ensure_flag_field e w2 = (b3, w3)"
        by (cases "ensure_flag_field e w2")
      note q3 = quiet_trans [OF q2 ensure_step(1) [OF f]]
      have l3: "List.member (field_names (layer w)) FLAG_FIELD \<longrightarrow> layer w3 = layer w"
        using ensure_step(2) [OF f] l2 by simp
      show ?thesis
      proof (cases b3)
        case False
        then have "main e w = (Inr (), w3)"
          by (simp add: main_def w0_def [symmetric] c Some a True f)
        moreover have "\<not> store_answers e w"
          using ensure_step(3) [OF f] False l2 by (simp add: store_answers_def)
        ultimately show ?thesis
          using q3 l3 by simp
      next
        case b3: True
        obtain q w4 where qf: "query_features e w3 = (q, w4)"
          by (cases "query_features e w3")
        note q4 = quiet_trans [OF q3 query_step(1) [OF qf]]
        have l4: "List.member (field_names (layer w)) FLAG_FIELD \<longrightarrow> layer w4 = layer w"
          using query_step(2) [OF qf] l3 by simp
        have lq: "layer_query (layer w3) = layer_query (layer w)"
          using q3 by (intro layer_query_rows) (simp add: quiet_def)
        show ?thesis
        proof (cases q)
          case None
          then have "main e w = (Inr (), w4)"
            by (simp add: main_def w0_def [symmetric] c Some a True f b3 qf)
          moreover have "\<not> store_answers e w"
            using query_step(3) [OF qf] None by (auto simp: store_answers_def split: if_splits)
          ultimately show ?thesis
            using q4 l4 by simp
        next
          case (Some fs)
          then have fs: "fs = layer_query (layer w)"
            using query_step(3) [OF qf] lq by (auto split: if_splits)
          show ?thesis
          proof (cases "fs = []")
            case True
            then have m: "main e w = (Inr (), py_print nothing_to_do w4)"
              by (simp add: main_def w0_def [symmetric] c \<open>g = Some gis\<close> a \<open>b2\<close> f b3 qf Some
                  nothing_to_do_def)
            have "quiet w (py_print nothing_to_do w4)"
              using q4 quiet_print by (rule quiet_trans)
            moreover have "last (stdout (py_print nothing_to_do w4)) = nothing_to_do"
              by (simp add: py_print_def)
            ultimately show ?thesis
              using m l4 True fs by (simp add: layer_print)
          next
            case False
            obtain us w5 where "fst (analyze e fs [] w4) = Inr us"
              and an: "analyze e fs [] w4 = (fst (analyze e fs [] w4), w5)"
              using analyze_never_raises [of e fs "[]" w4] by (cases "analyze e fs [] w4") auto
            then have an': "analyze e fs [] w4 = (Inr us, w5)"
              by simp
            then have "main e w = (Inr (), py_print finished (apply_updates e us w5))"
              using False
              by (simp add: main_def w0_def [symmetric] c \<open>g = Some gis\<close> a \<open>b2\<close> f b3 qf Some
                  finished_def)
            with False fs q4 an' show ?thesis
              by blast
          qed
        qed
      qed
    qed
  qed
qed


lemma main_never_raises: "fst (main e w) = Inr ()"
  using main_shape [of e w] by auto

text \<open>
  C8. When no record of the store is unprocessed, a run classifies nothing (neither
  classifier is called, no request goes to the inference backend), submits no batch
  write, leaves every record as it was and returns without an exception; when the
  portal and the store answer, its last line is the one saying that there is nothing
  to process. The layer itself is unchanged when the flag field exists (otherwise
  step 3 adds the field to the layer's definition, which touches no record). A run
  that follows a fully successful run is such a run.
\<close>

theorem run_without_unprocessed:
  assumes "\<forall>a\<in>set (rows (layer w)). \<not> unprocessed a"
  shows "fst (main e w) = Inr ()
     \<and> keyword_calls (snd (main e w)) = keyword_calls w
     \<and> semantic_calls (snd (main e w)) = semantic_calls w
     \<and> openai_requests (snd (main e w)) = openai_requests w
     \<and> edit_requests (snd (main e w)) = edit_requests w
     \<and> rows (layer (snd (main e w))) = rows (layer w)
     \<and> (List.member (field_names (layer w)) FLAG_FIELD \<longrightarrow> layer (snd (main e w)) = layer w)
     \<and> (store_answers e w \<longrightarrow> last (stdout (snd (main e w))) = nothing_to_do)"
proof -
  from assms have "layer_query (layer w) = []"
    by (simp add: layer_query_empty)
  with main_shape [of e w] obtain w' where "main e w = (Inr (), w')" and "quiet w w'"
    and "List.member (field_names (layer w)) FLAG_FIELD \<longrightarrow> layer w' = layer w"
    and "store_answers e w \<longrightarrow> last (stdout w') = nothing_to_do"
    by auto
  then show ?thesis
    by (simp add: quiet_def)
qed

lemma example_run:
  "layer (snd (main example_env example_world)) = done_layer"
  by (simp add: main_def connect_def access_layer_def url_configured ensure_flag_field_def
      query_features_def layer_query_def unprocessed_def apply_updates_def report_def
      summary_def update_errors_def failed_def accepting_store_def ARCGIS_PORTAL_URL_def
      stage_eval char_eval example_eval field_eval AList.restrict_eq Let_def)


lemma done_world_terminal: "\<forall>a\<in>set (rows (layer done_world)). \<not> unprocessed a"
  by (simp add: unprocessed_def example_eval field_eval)

lemma example_store_answers: "store_answers example_env w"
  by (simp add: store_answers_def connect_def example_env_def example_environ_def Let_def)

theorem run_without_unprocessed_witness:
  "fst (main example_env done_world) = Inr ()
   \<and> keyword_calls (snd (main example_env done_world)) = 0
   \<and> semantic_calls (snd (main example_env done_world)) = 0
   \<and> openai_requests (snd (main example_env done_world)) = []
   \<and> edit_requests (snd (main example_env done_world)) = []
   \<and> layer (snd (main example_env done_world)) = done_layer
   \<and> last (stdout (snd (main example_env done_world))) = nothing_to_do
   \<and> layer (snd (main example_env (snd (main example_env example_world)))) = done_layer
   \<and> edit_requests (snd (main example_env (snd (main example_env example_world))))
       = edit_requests (snd (main example_env example_world))"
proof -
  have field: "List.member (field_names done_layer) FLAG_FIELD"
    by (simp add: done_layer_def FLAG_FIELD_def)
  have start: "layer done_world = done_layer" "keyword_calls done_world = 0"
    "semantic_calls done_world = 0" "openai_requests done_world = []"
    "edit_requests done_world = []"
    by (simp_all add: done_world_def example_world_def)
  have again: "\<forall>a\<in>set (rows (layer (snd (main example_env example_world)))). \<not> unprocessed a"
    using done_world_terminal by (simp add: example_run start(1))
  show ?thesis
    using run_without_unprocessed [OF done_world_terminal, of example_env]
      run_without_unprocessed [OF again, of example_env]
      example_store_answers field
    by (simp add: start example_run)
qed

text \<open>
  C9. The classification loop, run on any prefix of the query's answer (a run aborted
  between two records), leaves the layer as it was and submits nothing: the labels go
  to the copies the query returned. Over a whole run the records of the store change,
  if at all, through the one \<^verbatim>\<open>edit_features\<close> call of step 6, on a layer whose records
  are those the run started with.
\<close>

theorem store_written_only_by_batch:
  "layer (snd (analyze e (take n fs) acc w)) = layer w
   \<and> edit_requests (snd (analyze e (take n fs) acc w)) = edit_requests w
   \<and> ((edit_requests (snd (main e w)) = edit_requests w
          \<and> rows (layer (snd (main e w))) = rows (layer w))
        \<or> (\<exists>updates l. updates \<noteq> [] \<and> rows l = rows (layer w)
              \<and> edit_requests (snd (main e w)) = edit_requests w @ [updates]
              \<and> layer (snd (main e w)) = snd (edit_features e l updates)))"
proof -
  consider (early) w' where "main e w = (Inr (), w')" "quiet w w'"
    | (ran) w4 w5 updates where "layer_query (layer w) \<noteq> []" "quiet w w4"
        "analyze e (layer_query (layer w)) [] w4 = (Inr updates, w5)"
        "main e w = (Inr (), py_print finished (apply_updates e updates w5))"
    using main_shape [of e w] by blast
  then have "(edit_requests (snd (main e w)) = edit_requests w
          \<and> rows (layer (snd (main e w))) = rows (layer w))
        \<or> (\<exists>updates l. updates \<noteq> [] \<and> rows l = rows (layer w)
              \<and> edit_requests (snd (main e w)) = edit_requests w @ [updates]
              \<and> layer (snd (main e w)) = snd (edit_features e l updates))"
  proof cases
    case early
    then show ?thesis
      by (simp add: quiet_def)
  next
    case ran
    have w5: "layer w5 = layer w4" "edit_requests w5 = edit_requests w4"
      using analyze_frame [of e "layer_query (layer w)" "[]" w4] ran(3) by simp_all
    have "length updates = length (layer_query (layer w))"
      using analyze_never_raises [of e "layer_query (layer w)" "[]" w4] ran(3) by simp
    with ran(1) have ne: "updates \<noteq> []"
      by auto
    have "rows (layer w5) = rows (layer w)" and "edit_requests w5 = edit_requests w"
      using w5 ran(2) by (simp_all add: quiet_def)
    moreover have "edit_requests (snd (main e w)) = edit_requests w5 @ [updates]"
      and "layer (snd (main e w)) = snd (edit_features e (layer w5) updates)"
      using apply_updates_step(1) [OF ne, of e w5] ran(4) by (simp_all add: py_print_def)
    ultimately show ?thesis
      using ne by auto
  qed
  then show ?thesis
    using analyze_frame [of e "take n fs" acc w] by simp
qed

theorem store_written_only_by_batch_witness:
  "layer (snd (analyze backend_down (take 1 (layer_query example_layer)) [] example_world))
     = example_layer
   \<and> edit_requests (snd (analyze backend_down (take 1 (layer_query example_layer)) [] example_world))
     = []
   \<and> ((edit_requests (snd (main backend_down example_world)) = []
          \<and> rows (layer (snd (main backend_down example_world))) = rows example_layer)
        \<or> (\<exists>updates l. updates \<noteq> [] \<and> rows l = rows example_layer
              \<and> edit_requests (snd (main backend_down example_world)) = [] @ [updates]
              \<and> layer (snd (main backend_down example_world))
                  = snd (edit_features backend_down l updates)))"
proof -
  have "layer example_world = example_layer" and "edit_requests example_world = []"
    by (simp_all add: example_world_def)
  then show ?thesis
    using store_written_only_by_batch [of backend_down 1 "layer_query example_layer" "[]" example_world]
    by simp
qed

end
